theory Spec2Isabelle
  imports Complex_Main "HOL-Library.Sublist"
begin

section \<open>Python values shared by the adapters\<close>

text \<open>
  The adapters raise two exception classes of their own, \<open>AdapterError\<close> and
  \<open>RateLimitError\<close> (module \<open>src/data/exceptions.py\<close>); every other exception that
  can travel through them comes from the interpreter, pandas or a provider package and
  is a \<open>ForeignError\<close>. Each carries the text that \<open>str(e)\<close> returns. The fetch
  functions return \<open>Inl e\<close> where the Python raises \<open>e\<close> and \<open>Inr df\<close> where it
  returns \<open>df\<close>. Calls of the logger have no influence on the result and are left out.
\<close>

datatype py_exn = AdapterError string | RateLimitError string | ForeignError string

text \<open>
  A pandas DataFrame, as far as the adapters look at it: the row index and the columns in
  order, each a label with its cells. Column labels may repeat (renaming can produce
  duplicates), hence an association list. A timestamp is an integer (the instant, in
  nanoseconds since the epoch); missing timestamps (NaT) are not modelled. A datetime
  index is either timezone-aware or naive, which its flag says: pandas refuses to order
  aware timestamps against naive ones.
\<close>

datatype cell = Num real | Str string | Time int

datatype index = RangeIndex nat | Index "cell list" | DatetimeIndex bool "int list"

record frame =
  index :: index
  data :: "(string \<times> cell list) list"

definition columns :: "frame \<Rightarrow> string list" where
  "columns df = map fst (data df)"

text \<open>\<open>pd.DataFrame()\<close>: no columns, and the default positional index of length 0.\<close>

definition empty_frame :: frame where
  "empty_frame = \<lparr>index = RangeIndex 0, data = []\<rparr>"

fun index_len :: "index \<Rightarrow> nat" where
  "index_len (RangeIndex n) = n"
| "index_len (Index cs) = length cs"
| "index_len (DatetimeIndex tz ts) = length ts"

fun index_values :: "index \<Rightarrow> cell list" where
  "index_values (RangeIndex n) = map (\<lambda>i. Num (real i)) [0..<n]"
| "index_values (Index cs) = cs"
| "index_values (DatetimeIndex tz ts) = map Time ts"

fun is_datetime_index :: "index \<Rightarrow> bool" where
  "is_datetime_index (DatetimeIndex tz ts) = True"
| "is_datetime_index (RangeIndex n) = False"
| "is_datetime_index (Index cs) = False"

text \<open>\<open>df.empty\<close>: one of the two axes has length 0.\<close>

definition df_empty :: "frame \<Rightarrow> bool" where
  "df_empty df = (index_len (index df) = 0 \<or> data df = [])"

text \<open>
  The pandas functions whose results depend on parsing text or on the file system are
  parameters: each returns \<open>Inl msg\<close> when pandas raises an exception with text \<open>msg\<close>.
  \<open>read_csv path\<close> stands for \<open>pd.read_csv(path, parse_dates=True, index_col=0)\<close>.
  \<open>pd.to_datetime\<close> gives timestamps together with their awareness of a timezone.
\<close>

record pandas =
  to_datetime :: "cell list \<Rightarrow> string + bool \<times> int list"
  to_datetime_scalar :: "string \<Rightarrow> string + bool \<times> int"
  read_csv :: "string \<Rightarrow> string + frame"

text \<open>
  \<open>pd.to_datetime(df[name])\<close>: with a repeated label \<open>df[name]\<close> is a sub-frame, and
  pandas refuses to assemble datetimes from a frame with duplicate keys.
\<close>

definition column :: "frame \<Rightarrow> string \<Rightarrow> cell list" where
  "column df name = (case map_of (data df) name of Some vs \<Rightarrow> vs | None \<Rightarrow> [])"

definition to_datetime_column :: "pandas \<Rightarrow> frame \<Rightarrow> string \<Rightarrow> string + bool \<times> int list" where
  "to_datetime_column pd df name =
     (if 1 < count_list (columns df) name then Inl ''cannot assemble with duplicate keys''
      else to_datetime pd (column df name))"

text \<open>\<open>df[name] = pd.to_datetime(df[name]); df = df.set_index(name)\<close> for a converted column.\<close>

fun datetime_index :: "bool \<times> int list \<Rightarrow> index" where
  "datetime_index (tz, ts) = DatetimeIndex tz ts"

definition set_index :: "frame \<Rightarrow> string \<Rightarrow> bool \<times> int list \<Rightarrow> frame" where
  "set_index df name dt =
     \<lparr>index = datetime_index dt, data = filter (\<lambda>(c, vs). c \<noteq> name) (data df)\<rparr>"

text \<open>\<open>if not isinstance(df.index, pd.DatetimeIndex): df.index = pd.to_datetime(df.index)\<close>\<close>

definition ensure_datetime_index :: "pandas \<Rightarrow> frame \<Rightarrow> string + frame" where
  "ensure_datetime_index pd df =
     (if \<not> is_datetime_index (index df) then
        (case to_datetime pd (index_values (index df)) of
           Inl m \<Rightarrow> Inl m
         | Inr dt \<Rightarrow> Inr (df\<lparr>index := datetime_index dt\<rparr>))
      else Inr df)"

section \<open>Classification of provider exceptions\<close>

text \<open>
  \<open>str.lower\<close> on the characters that matter for the three ASCII keywords: the letters
  A to Z. (A string is a list of bytes; the bytes of a non-ASCII character are kept.)
  \<open>k in msg\<close> on Python strings is \<^const>\<open>sublist\<close>.
\<close>

definition lower_char :: "char \<Rightarrow> char" where
  "lower_char c =
     (let n = (of_char c :: nat) in if 65 \<le> n \<and> n \<le> 90 then char_of (n + 32) else c)"

definition lower :: "string \<Rightarrow> string" where
  "lower s = map lower_char s"

text \<open>
  The handler both network adapters end with:
  \<^verbatim>\<open>
    msg = str(e).lower()
    if 'rate' in msg or 'limit' in msg or 'too many requests' in msg:
        raise RateLimitError(str(e))
    raise AdapterError(str(e))
  \<close>
\<close>

definition rate_limit_message :: "string \<Rightarrow> bool" where
  "rate_limit_message m =
     (let msg = lower m in
        sublist ''rate'' msg \<or> sublist ''limit'' msg \<or> sublist ''too many requests'' msg)"

definition classify :: "string \<Rightarrow> py_exn" where
  "classify m = (if rate_limit_message m then RateLimitError m else AdapterError m)"

fun message :: "py_exn \<Rightarrow> string" where
  "message (AdapterError m) = m"
| "message (RateLimitError m) = m"
| "message (ForeignError m) = m"

section \<open>The akshare adapter\<close>

text \<open>
  \<open>import akshare as ak\<close> inside \<open>fetch\<close> either raises (with some text) or binds the
  package, of which the adapter calls \<open>ak.stock_zh_a_daily(symbol, start_date, end_date)\<close>:
  it raises, returns \<open>None\<close> or returns a frame.
\<close>

type_synonym provider_call =
  "string \<Rightarrow> string option \<Rightarrow> string option \<Rightarrow> string + frame option"

datatype akshare_package = AkshareMissing string | AkshareInstalled provider_call

text \<open>The body of the outer \<open>try\<close>.\<close>

definition akshare_try ::
  "pandas \<Rightarrow> akshare_package \<Rightarrow> string \<Rightarrow> string option \<Rightarrow> string option \<Rightarrow> string
     \<Rightarrow> py_exn + frame" where
  "akshare_try pd ak symbol start end interval =
     (case ak of
        AkshareMissing ie \<Rightarrow> Inl (AdapterError ''akshare is not installed'')
      | AkshareInstalled stock_zh_a_daily \<Rightarrow>
          if interval = ''1d'' \<or> interval = ''daily'' then
            (case stock_zh_a_daily symbol start end of
               Inl m \<Rightarrow> Inl (ForeignError m)
             | Inr None \<Rightarrow> Inr empty_frame
             | Inr (Some df) \<Rightarrow>
                 if df_empty df then Inr empty_frame
                 else if ''date'' \<in> set (columns df) then
                   (case to_datetime_column pd df ''date'' of
                      Inl m \<Rightarrow> Inl (ForeignError m)
                    | Inr dt \<Rightarrow> Inr (set_index df ''date'' dt))
                 else
                   (case ensure_datetime_index pd df of
                      Inl m \<Rightarrow> Inl (ForeignError m)
                    | Inr df' \<Rightarrow> Inr df'))
          else Inl (AdapterError (''Interval not supported by akshare adapter: '' @ interval)))"

text \<open>\<open>except AdapterError: raise\<close>, then \<open>except Exception as e:\<close> with the classification.\<close>

fun akshare_except :: "py_exn \<Rightarrow> py_exn" where
  "akshare_except (AdapterError m) = AdapterError m"
| "akshare_except (RateLimitError m) = classify m"
| "akshare_except (ForeignError m) = classify m"

definition akshare_fetch ::
  "pandas \<Rightarrow> akshare_package \<Rightarrow> string \<Rightarrow> string option \<Rightarrow> string option \<Rightarrow> string
     \<Rightarrow> py_exn + frame" where
  "akshare_fetch pd ak symbol start end interval =
     (case akshare_try pd ak symbol start end interval of
        Inl e \<Rightarrow> Inl (akshare_except e)
      | Inr df \<Rightarrow> Inr df)"

section \<open>The yfinance adapter\<close>

text \<open>
  The module starts with \<open>import yfinance as yf\<close>, so it only loads when the package is
  there; loading it gives \<open>fetch\<close>. \<open>yf.download(symbol, start, end, interval,
  auto_adjust)\<close> raises, returns \<open>None\<close> or returns a frame.
\<close>

type_synonym download_call =
  "string \<Rightarrow> string option \<Rightarrow> string option \<Rightarrow> string \<Rightarrow> bool \<Rightarrow> string + frame option"

datatype yfinance_package = YfinanceMissing string | YfinanceInstalled download_call

definition yfinance_try ::
  "pandas \<Rightarrow> download_call \<Rightarrow> string \<Rightarrow> string option \<Rightarrow> string option \<Rightarrow> string \<Rightarrow> bool
     \<Rightarrow> py_exn + frame" where
  "yfinance_try pd download symbol start end interval adjusted =
     (case download symbol start end interval adjusted of
        Inl m \<Rightarrow> Inl (ForeignError m)
      | Inr None \<Rightarrow> Inr empty_frame
      | Inr (Some df) \<Rightarrow>
          if df_empty df then Inr empty_frame
          else
            (case ensure_datetime_index pd df of
               Inl m \<Rightarrow> Inl (ForeignError m)
             | Inr df' \<Rightarrow> Inr df'))"

definition yfinance_fetch ::
  "pandas \<Rightarrow> download_call \<Rightarrow> string \<Rightarrow> string option \<Rightarrow> string option \<Rightarrow> string \<Rightarrow> bool
     \<Rightarrow> py_exn + frame" where
  "yfinance_fetch pd download symbol start end interval adjusted =
     (case yfinance_try pd download symbol start end interval adjusted of
        Inl e \<Rightarrow> Inl (classify (message e))
      | Inr df \<Rightarrow> Inr df)"

text \<open>
  Importing \<open>src.data.adapters.yfinance_adapter\<close>: the first statement of the module
  raises the import error itself when the package is missing.
\<close>

definition import_yfinance_adapter ::
  "pandas \<Rightarrow> yfinance_package
     \<Rightarrow> py_exn + (string \<Rightarrow> string option \<Rightarrow> string option \<Rightarrow> string \<Rightarrow> bool \<Rightarrow> py_exn + frame)" where
  "import_yfinance_adapter pd yf =
     (case yf of
        YfinanceMissing m \<Rightarrow> Inl (ForeignError m)
      | YfinanceInstalled download \<Rightarrow> Inr (yfinance_fetch pd download))"

section \<open>The CSV adapter\<close>

text \<open>What the adapter asks of the operating system.\<close>

record os_env =
  getcwd :: string
  path_join :: "string \<Rightarrow> string \<Rightarrow> string"
  path_exists :: "string \<Rightarrow> bool"

text \<open>
  \<open>symbol\<close> itself when it ends in \<open>.csv\<close> (any case), else \<open><base>/<symbol>.csv\<close>
  with \<open>base = kwargs.get('csv_base', os.path.join(os.getcwd(), 'data', 'csv'))\<close>.
\<close>

definition csv_path :: "os_env \<Rightarrow> string \<Rightarrow> string option \<Rightarrow> string" where
  "csv_path os symbol csv_base =
     (if suffix ''.csv'' (lower symbol) then symbol
      else
        (let base = (case csv_base of
                       Some b \<Rightarrow> b
                     | None \<Rightarrow> path_join os (path_join os (getcwd os) ''data'') ''csv'')
         in path_join os base (symbol @ ''.csv'')))"

text \<open>The \<open>if\<close>/\<open>elif\<close> chain on the lower-cased column label.\<close>

definition csv_rename_entry :: "string \<Rightarrow> string option" where
  "csv_rename_entry c =
     (let lc = lower c in
        if lc = ''open'' \<or> lc = ''open_price'' then Some ''Open''
        else if lc = ''high'' then Some ''High''
        else if lc = ''low'' then Some ''Low''
        else if lc = ''close'' \<or> lc = ''close_price'' then Some ''Close''
        else if lc = ''adj close'' \<or> lc = ''adj_close'' \<or> lc = ''adjclose'' then Some ''Adj Close''
        else if lc = ''volume'' \<or> lc = ''vol'' then Some ''Volume''
        else None)"

definition rename_map :: "string list \<Rightarrow> (string \<times> string) list" where
  "rename_map cs = List.map_filter (\<lambda>c. map_option (Pair c) (csv_rename_entry c)) cs"

text \<open>\<open>df.rename(columns=m)\<close>: a label that is a key of \<open>m\<close> is replaced, the others stay.\<close>

definition rename_columns :: "(string \<times> string) list \<Rightarrow> frame \<Rightarrow> frame" where
  "rename_columns m df =
     df\<lparr>data := map (\<lambda>(c, vs). (case map_of m c of Some n \<Rightarrow> n | None \<Rightarrow> c, vs)) (data df)\<rparr>"

text \<open>
  \<open>df[mask]\<close> keeps the rows where the mask is true. \<open>df.index >= t\<close> and
  \<open>df.index <= t\<close> against a timestamp give a mask for a datetime index of the same
  awareness as \<open>t\<close>; pandas raises a \<open>TypeError\<close> when one is timezone-aware and the
  other naive, and for the other index kinds.
\<close>

definition tz_mismatch :: string where
  "tz_mismatch = ''Cannot compare tz-naive and tz-aware datetime-like objects''"

fun select :: "bool list \<Rightarrow> 'a list \<Rightarrow> 'a list" where
  "select (b # bs) (x # xs) = (if b then x # select bs xs else select bs xs)"
| "select [] xs = []"
| "select bs [] = []"

fun select_index :: "bool list \<Rightarrow> index \<Rightarrow> index" where
  "select_index keep (DatetimeIndex tz ts) = DatetimeIndex tz (select keep ts)"
| "select_index keep (Index cs) = Index (select keep cs)"
| "select_index keep (RangeIndex n) = Index (select keep (index_values (RangeIndex n)))"

definition take_rows :: "bool list \<Rightarrow> frame \<Rightarrow> frame" where
  "take_rows keep df =
     \<lparr>index = select_index keep (index df),
      data = map (\<lambda>(c, vs). (c, select keep vs)) (data df)\<rparr>"

fun index_ge :: "index \<Rightarrow> bool \<times> int \<Rightarrow> string + bool list" where
  "index_ge (DatetimeIndex tz ts) (tz', t) =
     (if tz = tz' then Inr (map (\<lambda>x. t \<le> x) ts) else Inl tz_mismatch)"
| "index_ge (RangeIndex n) b = Inl ''TypeError''"
| "index_ge (Index cs) b = Inl ''TypeError''"

fun index_le :: "index \<Rightarrow> bool \<times> int \<Rightarrow> string + bool list" where
  "index_le (DatetimeIndex tz ts) (tz', t) =
     (if tz = tz' then Inr (map (\<lambda>x. x \<le> t) ts) else Inl tz_mismatch)"
| "index_le (RangeIndex n) b = Inl ''TypeError''"
| "index_le (Index cs) b = Inl ''TypeError''"

text \<open>
  \<open>if start: df = df[df.index >= pd.to_datetime(start)]\<close>; the condition holds for a
  string that is neither \<open>None\<close> nor empty.
\<close>

definition filter_start :: "pandas \<Rightarrow> string option \<Rightarrow> frame \<Rightarrow> string + frame" where
  "filter_start pd start df =
     (case start of
        None \<Rightarrow> Inr df
      | Some s \<Rightarrow>
          if s = [] then Inr df
          else
            (case to_datetime_scalar pd s of
               Inl m \<Rightarrow> Inl m
             | Inr t \<Rightarrow>
                 (case index_ge (index df) t of
                    Inl m \<Rightarrow> Inl m
                  | Inr keep \<Rightarrow> Inr (take_rows keep df))))"

text \<open>\<open>if end: df = df[df.index <= pd.to_datetime(end)]\<close>\<close>

definition filter_end :: "pandas \<Rightarrow> string option \<Rightarrow> frame \<Rightarrow> string + frame" where
  "filter_end pd end df =
     (case end of
        None \<Rightarrow> Inr df
      | Some s \<Rightarrow>
          if s = [] then Inr df
          else
            (case to_datetime_scalar pd s of
               Inl m \<Rightarrow> Inl m
             | Inr t \<Rightarrow>
                 (case index_le (index df) t of
                    Inl m \<Rightarrow> Inl m
                  | Inr keep \<Rightarrow> Inr (take_rows keep df))))"

text \<open>
  \<open>fetch\<close> of the CSV adapter. The only \<open>try\<close> is around \<open>pd.read_csv\<close>, and its
  handler returns \<open>pd.DataFrame()\<close>; an exception of the later statements (a
  conversion that fails, a comparison of aware with naive timestamps) leaves the function
  as it is.
\<close>

definition csv_fetch ::
  "pandas \<Rightarrow> os_env \<Rightarrow> string \<Rightarrow> string option \<Rightarrow> string option \<Rightarrow> string \<Rightarrow> string option
     \<Rightarrow> py_exn + frame" where
  "csv_fetch pd os symbol start end interval csv_base =
     (let path = csv_path os symbol csv_base in
        if \<not> path_exists os path then Inr empty_frame
        else
          (case read_csv pd path of
             Inl m \<Rightarrow> Inr empty_frame
           | Inr df0 \<Rightarrow>
               (let m = rename_map (columns df0);
                    df1 = (if m \<noteq> [] then rename_columns m df0 else df0)
                in
                  (case ensure_datetime_index pd df1 of
                     Inl e \<Rightarrow> Inl (ForeignError e)
                   | Inr df2 \<Rightarrow>
                       (case filter_start pd start df2 of
                          Inl e \<Rightarrow> Inl (ForeignError e)
                        | Inr df3 \<Rightarrow>
                            (case filter_end pd end df3 of
                               Inl e \<Rightarrow> Inl (ForeignError e)
                             | Inr df4 \<Rightarrow> Inr df4))))))"

section \<open>AKFinance: standardising a provider frame\<close>

text \<open>
  \<open>_get_column_mapping\<close>: the keys are the provider's Chinese column labels, written
  here as their UTF-8 bytes. The \<open>exchange\<close> argument is not used.
\<close>

definition get_column_mapping :: "string \<Rightarrow> (string \<times> string) list" where
  "get_column_mapping exchange =
     [([CHR 0xE5, CHR 0xBC, CHR 0x80, CHR 0xE7, CHR 0x9B, CHR 0x98], ''Open''),
      ([CHR 0xE6, CHR 0x94, CHR 0xB6, CHR 0xE7, CHR 0x9B, CHR 0x98], ''Close''),
      ([CHR 0xE6, CHR 0x9C, CHR 0x80, CHR 0xE9, CHR 0xAB, CHR 0x98], ''High''),
      ([CHR 0xE6, CHR 0x9C, CHR 0x80, CHR 0xE4, CHR 0xBD, CHR 0x8E], ''Low''),
      ([CHR 0xE6, CHR 0x88, CHR 0x90, CHR 0xE4, CHR 0xBA, CHR 0xA4, CHR 0xE9, CHR 0x87, CHR 0x8F], ''Volume''),
      ([CHR 0xE6, CHR 0x88, CHR 0x90, CHR 0xE4, CHR 0xBA, CHR 0xA4, CHR 0xE9, CHR 0xA2, CHR 0x9D], ''Amount''),
      ([CHR 0xE6, CHR 0x8C, CHR 0xAF, CHR 0xE5, CHR 0xB9, CHR 0x85], ''Amplitude''),
      ([CHR 0xE6, CHR 0xB6, CHR 0xA8, CHR 0xE8, CHR 0xB7, CHR 0x8C, CHR 0xE5, CHR 0xB9, CHR 0x85], ''Percent''),
      ([CHR 0xE6, CHR 0xB6, CHR 0xA8, CHR 0xE8, CHR 0xB7, CHR 0x8C, CHR 0xE9, CHR 0xA2, CHR 0x9D], ''Change''),
      ([CHR 0xE6, CHR 0x8D, CHR 0xA2, CHR 0xE6, CHR 0x89, CHR 0x8B, CHR 0xE7, CHR 0x8E, CHR 0x87], ''Turnover''),
      ([CHR 0xE6, CHR 0x97, CHR 0xA5, CHR 0xE6, CHR 0x9C, CHR 0x9F], ''Date''),
      ([CHR 0xE6, CHR 0x97, CHR 0xB6, CHR 0xE9, CHR 0x97, CHR 0xB4], ''Time'')]"

definition date_columns :: "string list" where
  "date_columns =
     [''Date'', [CHR 0xE6, CHR 0x97, CHR 0xA5, CHR 0xE6, CHR 0x9C, CHR 0x9F], ''date'', ''datetime'']"

definition necessary_columns :: "string list" where
  "necessary_columns = [''Open'', ''High'', ''Low'', ''Close'', ''Volume'']"

text \<open>
  \<open>pd.date_range(start=datetime.now() - timedelta(days=n), periods=n, freq='D')\<close>,
  with \<open>now\<close> the clock reading in nanoseconds.
\<close>

definition day_ns :: int where
  "day_ns = 86400000000000"

definition default_index :: "int \<Rightarrow> nat \<Rightarrow> index" where
  "default_index now n =
     DatetimeIndex False (map (\<lambda>i. now - int n * day_ns + int i * day_ns) [0..<n])"

text \<open>\<open>if col not in df.columns: df[col] = 0.0\<close>\<close>

definition add_missing :: "string \<Rightarrow> frame \<Rightarrow> frame" where
  "add_missing col df =
     (if col \<notin> set (columns df)
      then df\<lparr>data := data df @ [(col, replicate (index_len (index df)) (Num 0))]\<rparr>
      else df)"

definition standardize_dataframe ::
  "pandas \<Rightarrow> int \<Rightarrow> frame option \<Rightarrow> string \<Rightarrow> py_exn + frame" where
  "standardize_dataframe pd now df exchange =
     (case df of
        None \<Rightarrow> Inr empty_frame
      | Some df0 \<Rightarrow>
          if df_empty df0 then Inr empty_frame
          else
            (let df1 = rename_columns (get_column_mapping exchange) df0 in
               (case
                  (case find (\<lambda>col. col \<in> set (columns df1)) date_columns of
                     Some date_column \<Rightarrow>
                       (case to_datetime_column pd df1 date_column of
                          Inl m \<Rightarrow> Inl (ForeignError m)
                        | Inr dt \<Rightarrow> Inr (set_index df1 date_column dt))
                   | None \<Rightarrow>
                       Inr (df1\<lparr>index := default_index now (index_len (index df1))\<rparr>))
                of
                  Inl e \<Rightarrow> Inl e
                | Inr df2 \<Rightarrow> Inr (fold add_missing necessary_columns df2))))"

section \<open>The moving-average strategy\<close>

text \<open>
  Prices and averages are Python floats: a float is the real number it stands for, with
  \<open>None\<close> of \<open>real option\<close> for NaN. The arithmetic of the averages is done by pandas in
  double precision and is a parameter (see \<open>rolling_mean_last\<close>).
  \<open>collections.deque(maxlen=n)\<close> is a list with its bound: appending to a full deque
  drops the oldest item.
\<close>

record 'a deque =
  maxlen :: nat
  items :: "'a list"

definition deque_append :: "'a deque \<Rightarrow> 'a \<Rightarrow> 'a deque" where
  "deque_append d x =
     (if maxlen d = 0 then d
      else if maxlen d \<le> length (items d) then d\<lparr>items := tl (items d) @ [x]\<rparr>
      else d\<lparr>items := items d @ [x]\<rparr>)"

definition deque_clear :: "'a deque \<Rightarrow> 'a deque" where
  "deque_clear d = d\<lparr>items := []\<rparr>"

record moving_average =
  short_window :: int
  long_window :: int
  size_cfg :: int
  prices :: "real deque"
  position :: int
  last_short_sma :: "real option option"
  last_long_sma :: "real option option"

text \<open>
  \<open>__init__\<close>, for a config whose values are integers. \<open>deque(maxlen=...)\<close> raises a
  \<open>ValueError\<close> for a negative bound and an \<open>OverflowError\<close> for one that does not
  fit the signed 64-bit size of the interpreter.
\<close>

definition init :: "(string \<rightharpoonup> int) \<Rightarrow> py_exn + moving_average" where
  "init config =
     (let sw = (case config ''short_window'' of Some v \<Rightarrow> v | None \<Rightarrow> 5);
          lw = (case config ''long_window'' of Some v \<Rightarrow> v | None \<Rightarrow> 20)
      in
        if lw \<le> sw then Inl (ForeignError ''short_window must be smaller than long_window'')
        else if lw < 0 then Inl (ForeignError ''maxlen must be non-negative'')
        else if 2 ^ 63 \<le> lw
        then Inl (ForeignError ''Python int too large to convert to C ssize_t'')
        else
          Inr \<lparr>short_window = sw, long_window = lw,
               size_cfg = (case config ''size'' of Some v \<Rightarrow> v | None \<Rightarrow> 1),
               prices = \<lparr>maxlen = nat lw, items = []\<rparr>,
               position = 0, last_short_sma = None, last_long_sma = None\<rparr>)"

definition on_start :: "moving_average \<Rightarrow> moving_average" where
  "on_start s =
     s\<lparr>prices := deque_clear (prices s), position := 0,
       last_short_sma := None, last_long_sma := None\<rparr>"

text \<open>
  A bar is a pandas Series (labelled entries, where a label may repeat), a dict or
  another object with attributes; \<open>float(v)\<close> gives a number or raises.
\<close>

datatype field = Number real | NotNumber string

datatype bar =
    SeriesBar "(string \<times> field) list"
  | DictBar "string \<rightharpoonup> field"
  | ObjectBar "string \<rightharpoonup> field"

fun float :: "field \<Rightarrow> string + real" where
  "float (Number x) = Inr x"
| "float (NotNumber m) = Inl m"

definition no_close :: py_exn where
  "no_close = ForeignError ''bar must provide a 'close' price (Series/dict/object)''"

text \<open>
  The three branches of \<open>on_bar\<close>: a Series or a dict with a \<open>close\<close> entry converts it
  (an exception of \<open>float\<close> is not caught there; \<open>bar.loc["close"]\<close> of a Series with
  a repeated \<open>close\<close> label is a Series itself, which \<open>float\<close> refuses); everything else
  goes through \<open>getattr\<close> inside a \<open>try\<close> whose handler raises the \<open>ValueError\<close>.
\<close>

fun close_price :: "bar \<Rightarrow> py_exn + real" where
  "close_price (SeriesBar fs) =
     (case map_of fs ''close'' of
        Some v \<Rightarrow>
          if 1 < count_list (map fst fs) ''close''
          then Inl (ForeignError ''cannot convert the series to <class 'float'>'')
          else (case float v of Inl m \<Rightarrow> Inl (ForeignError m) | Inr x \<Rightarrow> Inr x)
      | None \<Rightarrow> Inl no_close)"
| "close_price (DictBar fs) =
     (case fs ''close'' of
        Some v \<Rightarrow> (case float v of Inl m \<Rightarrow> Inl (ForeignError m) | Inr x \<Rightarrow> Inr x)
      | None \<Rightarrow> Inl no_close)"
| "close_price (ObjectBar fs) =
     (case fs ''close'' of
        Some v \<Rightarrow> (case float v of Inl m \<Rightarrow> Inl no_close | Inr x \<Rightarrow> Inr x)
      | None \<Rightarrow> Inl no_close)"

definition on_bar :: "moving_average \<Rightarrow> bar \<Rightarrow> py_exn + moving_average" where
  "on_bar s b =
     (case close_price b of
        Inl e \<Rightarrow> Inl e
      | Inr close \<Rightarrow> Inr (s\<lparr>prices := deque_append (prices s) close\<rparr>))"

text \<open>
  \<open>float(ser.rolling(window=w).mean().iloc[-1])\<close>: the mean of the last \<open>w\<close> values,
  NaN when there are fewer than \<open>w\<close> of them or \<open>w = 0\<close>; a negative window and an empty
  series raise. The mean of a window is what pandas computes for it in double
  precision (rounded, possibly NaN), and is a parameter.
\<close>

type_synonym float_mean = "real list \<Rightarrow> real option"

definition rolling_mean_last :: "float_mean \<Rightarrow> int \<Rightarrow> real list \<Rightarrow> py_exn + real option" where
  "rolling_mean_last mean w xs =
     (if w < 0 then Inl (ForeignError ''window must be an integer 0 or greater'')
      else if xs = [] then Inl (ForeignError ''single positional indexer is out-of-bounds'')
      else if w = 0 \<or> int (length xs) < w then Inr None
      else Inr (mean (drop (length xs - nat w) xs)))"

text \<open>Comparisons of floats: false as soon as one side is NaN.\<close>

fun float_le :: "real option \<Rightarrow> real option \<Rightarrow> bool" where
  "float_le (Some x) (Some y) = (x \<le> y)"
| "float_le a b = False"

fun float_less :: "real option \<Rightarrow> real option \<Rightarrow> bool" where
  "float_less (Some x) (Some y) = (x < y)"
| "float_less a b = False"

record signal_dict =
  signal :: "string option"
  size_out :: int

text \<open>The crossover test on the previous and the current averages.\<close>

definition crossover ::
  "real option option \<Rightarrow> real option option \<Rightarrow> real option \<Rightarrow> real option \<Rightarrow> string option" where
  "crossover last_short last_long short_sma long_sma =
     (case (last_short, last_long) of
        (Some ls, Some ll) \<Rightarrow>
          if float_le ls ll \<and> float_less long_sma short_sma then Some ''buy''
          else if float_le ll ls \<and> float_less short_sma long_sma then Some ''sell''
          else None
      | _ \<Rightarrow> None)"

text \<open>\<open>generate_signals\<close> returns the signal dict and leaves the strategy updated.\<close>

definition generate_signals ::
  "float_mean \<Rightarrow> moving_average \<Rightarrow> py_exn + (signal_dict \<times> moving_average)" where
  "generate_signals mean s =
     (if int (length (items (prices s))) < long_window s
      then Inr (\<lparr>signal = None, size_out = 0\<rparr>, s)
      else
        (case rolling_mean_last mean (short_window s) (items (prices s)) of
           Inl e \<Rightarrow> Inl e
         | Inr short_sma \<Rightarrow>
             (case rolling_mean_last mean (long_window s) (items (prices s)) of
                Inl e \<Rightarrow> Inl e
              | Inr long_sma \<Rightarrow>
                  (let sig = crossover (last_short_sma s) (last_long_sma s) short_sma long_sma;
                       s1 = s\<lparr>last_short_sma := Some short_sma, last_long_sma := Some long_sma\<rparr>;
                       s2 = (if sig = Some ''buy'' then s1\<lparr>position := 1\<rparr>
                             else if sig = Some ''sell'' then s1\<lparr>position := 0\<rparr>
                             else s1)
                   in Inr (\<lparr>signal = sig, size_out = (if sig \<noteq> None then size_cfg s else 0)\<rparr>,
                           s2)))))"

text \<open>
  A run of the strategy: the framework's calls in order. A call that raises leaves the
  strategy as it was (both \<open>on_bar\<close> and \<open>generate_signals\<close> raise before they assign).
\<close>

datatype event = OnStart | OnBar bar | GenerateSignals | OnStop

fun exec :: "float_mean \<Rightarrow> event \<Rightarrow> moving_average \<Rightarrow> moving_average" where
  "exec mean OnStart s = on_start s"
| "exec mean (OnBar b) s = (case on_bar s b of Inl e \<Rightarrow> s | Inr s' \<Rightarrow> s')"
| "exec mean GenerateSignals s =
     (case generate_signals mean s of Inl e \<Rightarrow> s | Inr (d, s') \<Rightarrow> s')"
| "exec mean OnStop s = s"

definition run :: "float_mean \<Rightarrow> moving_average \<Rightarrow> event list \<Rightarrow> moving_average" where
  "run mean s evs = fold (exec mean) evs s"

text \<open>The number of close prices that \<open>on_bar\<close> has taken in during a run.\<close>

fun observed :: "event list \<Rightarrow> nat" where
  "observed [] = 0"
| "observed (OnBar b # evs) = (case close_price b of Inl e \<Rightarrow> 0 | Inr x \<Rightarrow> 1) + observed evs"
| "observed (ev # evs) = observed evs"

section \<open>The fetch dispatcher\<close>

text \<open>
  Modelled from the spec: the dispatcher \<open>get_history\<close> of \<open>src/data/fetcher.py\<close>, its
  cache store and its normalizer are not among the sources, which only hold a caller
  (\<open>scripts/fetch_akshare_save.py\<close>). The definitions follow section 4.5 of the
  specification step by step. The cache store is a map from keys (symbol, source,
  interval) to series. The adapters are one function, given the source and the number of
  adapter invocations made so far (a provider may answer each call differently); the
  dispatcher counts its invocations.
\<close>

datatype source = ExchangeApi | LocalFile | InstalledPackage

type_synonym cache_key = "string \<times> source \<times> string"

record dispatcher =
  cache_store :: "cache_key \<rightharpoonup> frame"
  adapter_calls :: nat

type_synonym adapters =
  "nat \<Rightarrow> source \<Rightarrow> string \<Rightarrow> string option \<Rightarrow> string option \<Rightarrow> string \<Rightarrow> py_exn + frame"

definition cache_get :: "dispatcher \<Rightarrow> cache_key \<Rightarrow> frame option" where
  "cache_get st key = cache_store st key"

definition cache_put :: "dispatcher \<Rightarrow> cache_key \<Rightarrow> frame \<Rightarrow> dispatcher" where
  "cache_put st key series = st\<lparr>cache_store := (cache_store st)(key \<mapsto> series)\<rparr>"

text \<open>
  Modelled from the spec: steps 2 to 5 of \<open>get_history\<close> (select the adapter, fetch,
  normalize, write to the cache when caching is enabled, return); an adapter's error
  propagates unchanged and writes nothing.
\<close>

definition fetch_and_store ::
  "adapters \<Rightarrow> (frame \<Rightarrow> frame) \<Rightarrow> dispatcher \<Rightarrow> string \<Rightarrow> string option \<Rightarrow> string option
     \<Rightarrow> source \<Rightarrow> string \<Rightarrow> bool \<Rightarrow> (py_exn + frame) \<times> dispatcher" where
  "fetch_and_store adapter normalizer st symbol start end src interval cache =
     (let st1 = st\<lparr>adapter_calls := Suc (adapter_calls st)\<rparr> in
        (case adapter (adapter_calls st) src symbol start end interval of
           Inl e \<Rightarrow> (Inl e, st1)
         | Inr raw \<Rightarrow>
             (let series = normalizer raw in
                (Inr series,
                 if cache then cache_put st1 (symbol, src, interval) series else st1))))"

text \<open>
  Modelled from the spec: \<open>get_history(symbol, start, end, source, cache, refresh)\<close>,
  step 1 (a cache hit is returned at once when \<open>cache\<close> is on and \<open>refresh\<close> is off) and
  the hand-over to steps 2 to 5.
\<close>

definition get_history ::
  "adapters \<Rightarrow> (frame \<Rightarrow> frame) \<Rightarrow> dispatcher \<Rightarrow> string \<Rightarrow> string option \<Rightarrow> string option
     \<Rightarrow> source \<Rightarrow> string \<Rightarrow> bool \<Rightarrow> bool \<Rightarrow> (py_exn + frame) \<times> dispatcher" where
  "get_history adapter normalizer st symbol start end src interval cache refresh =
     (if cache \<and> \<not> refresh then
        (case cache_get st (symbol, src, interval) of
           Some series \<Rightarrow> (Inr series, st)
         | None \<Rightarrow> fetch_and_store adapter normalizer st symbol start end src interval cache)
      else fetch_and_store adapter normalizer st symbol start end src interval cache)"

section \<open>Notions used in the statements\<close>

text \<open>A datetime index whose timestamps strictly ascend (and so never repeat).\<close>

fun index_times :: "index \<Rightarrow> int list" where
  "index_times (DatetimeIndex tz ts) = ts"
| "index_times (RangeIndex n) = []"
| "index_times (Index cs) = []"

fun index_aware :: "index \<Rightarrow> bool" where
  "index_aware (DatetimeIndex tz ts) = tz"
| "index_aware (RangeIndex n) = False"
| "index_aware (Index cs) = False"



text \<open>
  A requested bound: open when the argument is \<open>None\<close> or empty, else the timestamp
  pandas reads from it, with its awareness. A bound can be compared with an index when
  it is open or as aware as the index. A timestamp is in range when it respects each
  bound that is not open.
\<close>

definition bound :: "pandas \<Rightarrow> string option \<Rightarrow> string + (bool \<times> int) option" where
  "bound pd s =
     (case s of
        None \<Rightarrow> Inr None
      | Some v \<Rightarrow>
          if v = [] then Inr None
          else (case to_datetime_scalar pd v of Inl m \<Rightarrow> Inl m | Inr t \<Rightarrow> Inr (Some t)))"



text \<open>The label a CSV column carries after the renaming.\<close>

definition csv_canonical :: "string \<Rightarrow> string" where
  "csv_canonical c = (case csv_rename_entry c of Some n \<Rightarrow> n | None \<Rightarrow> c)"

section \<open>A sample environment\<close>

text \<open>
  Concrete stand-ins for pandas, the file system and the providers, on which the
  functions above are evaluated: four files exist, three of them readable; timestamps
  are day numbers.
\<close>

definition demo_cell_time :: "cell \<Rightarrow> string + int" where
  "demo_cell_time c =
     (case c of
        Time t \<Rightarrow> Inr t
      | Num x \<Rightarrow> Inr (floor x)
      | Str s \<Rightarrow> Inl (''Unknown datetime string format, unable to parse: '' @ s))"

fun demo_times :: "cell list \<Rightarrow> string + int list" where
  "demo_times [] = Inr []"
| "demo_times (c # cs) =
     (case demo_cell_time c of
        Inl m \<Rightarrow> Inl m
      | Inr t \<Rightarrow> (case demo_times cs of Inl m \<Rightarrow> Inl m | Inr ts \<Rightarrow> Inr (t # ts)))"

definition demo_to_datetime :: "cell list \<Rightarrow> string + bool \<times> int list" where
  "demo_to_datetime cs = (case demo_times cs of Inl m \<Rightarrow> Inl m | Inr ts \<Rightarrow> Inr (False, ts))"

definition demo_to_datetime_scalar :: "string \<Rightarrow> string + bool \<times> int" where
  "demo_to_datetime_scalar s =
     (if s = ''2024-01-10'' then Inr (False, 10)
      else if s = ''2024-01-20'' then Inr (False, 20)
      else if s = ''2024-01-10T00:00:00+00:00'' then Inr (True, 10)
      else Inl (''Unknown datetime string format, unable to parse: '' @ s))"

definition prices_frame :: frame where
  "prices_frame =
     \<lparr>index = DatetimeIndex False [1, 10, 15, 20, 31],
      data = [(''close'', [Num 11, Num 12, Num 13, Num 14, Num 15]),
              (''VOL'', [Num 100, Num 200, Num 300, Num 400, Num 500])]\<rparr>"

definition unordered_frame :: frame where
  "unordered_frame =
     \<lparr>index = DatetimeIndex False [2, 2, 1], data = [(''Close'', [Num 5, Num 6, Num 7])]\<rparr>"

text \<open>A file whose timestamps carry a UTC offset.\<close>

definition utc_frame :: frame where
  "utc_frame =
     \<lparr>index = DatetimeIndex True [1, 10, 15], data = [(''Close'', [Num 5, Num 6, Num 7])]\<rparr>"

definition demo_read_csv :: "string \<Rightarrow> string + frame" where
  "demo_read_csv path =
     (if path = ''data/prices.csv'' then Inr prices_frame
      else if path = ''data/unordered.csv'' then Inr unordered_frame
      else if path = ''data/utc.csv'' then Inr utc_frame
      else Inl ''Error tokenizing data'')"

definition demo_pandas :: pandas where
  "demo_pandas =
     \<lparr>to_datetime = demo_to_datetime, to_datetime_scalar = demo_to_datetime_scalar,
      read_csv = demo_read_csv\<rparr>"

definition demo_os :: os_env where
  "demo_os =
     \<lparr>getcwd = ''/home/trader'', path_join = (\<lambda>a b. a @ ''/'' @ b),
      path_exists = (\<lambda>p. p = ''data/prices.csv'' \<or> p = ''data/unordered.csv''
                         \<or> p = ''data/utc.csv'' \<or> p = ''data/broken.csv'')\<rparr>"

text \<open>A provider frame with a \<open>date\<close> column, and providers that answer with it.\<close>

definition provider_frame :: frame where
  "provider_frame =
     \<lparr>index = RangeIndex 2,
      data = [(''date'', [Time 3, Time 4]), (''close'', [Num 7, Num 8])]\<rparr>"

definition demo_stock_zh_a_daily :: provider_call where
  "demo_stock_zh_a_daily symbol start end = Inr (Some provider_frame)"





text \<open>A provider frame whose \<open>date\<close> column does not parse.\<close>

definition malformed_frame :: frame where
  "malformed_frame =
     \<lparr>index = RangeIndex 1, data = [(''date'', [Str ''n/a'']), (''close'', [Num 7])]\<rparr>"

text \<open>
  A frame as the akshare history call gives it (a date and a closing-price column under
  their Chinese labels), and its standardised form.
\<close>

definition hist_frame :: frame where
  "hist_frame =
     \<lparr>index = RangeIndex 2,
      data = [([CHR 0xE6, CHR 0x97, CHR 0xA5, CHR 0xE6, CHR 0x9C, CHR 0x9F], [Time 3, Time 4]),
              ([CHR 0xE6, CHR 0x94, CHR 0xB6, CHR 0xE7, CHR 0x9B, CHR 0x98], [Num 7, Num 8])]\<rparr>"

definition hist_standard :: frame where
  "hist_standard =
     \<lparr>index = DatetimeIndex False [3, 4],
      data = [(''Close'', [Num 7, Num 8]), (''Open'', [Num 0, Num 0]), (''High'', [Num 0, Num 0]),
              (''Low'', [Num 0, Num 0]), (''Volume'', [Num 0, Num 0])]\<rparr>"

text \<open>
  A strategy with windows 2 and 3, and a run of it that takes in two close prices (the
  second bar has no \<open>close\<close>, the third has two, and both are refused).
\<close>

definition demo_strategy :: moving_average where
  "demo_strategy =
     \<lparr>short_window = 2, long_window = 3, size_cfg = 1,
      prices = \<lparr>maxlen = 3, items = []\<rparr>,
      position = 0, last_short_sma = None, last_long_sma = None\<rparr>"

definition warm_up_events :: "event list" where
  "warm_up_events =
     [OnBar (DictBar [''close'' \<mapsto> Number 10]), GenerateSignals,
      OnBar (ObjectBar [''open'' \<mapsto> Number 9]),
      OnBar (SeriesBar [(''close'', Number 12), (''close'', Number 13)]),
      OnBar (SeriesBar [(''close'', Number 11)])]"

text \<open>The mean in exact arithmetic, which agrees with the rounded one on the sample prices.\<close>

definition exact_mean :: float_mean where
  "exact_mean xs = Some (sum_list xs / real (length xs))"

text \<open>An adapter that answers its first invocation with one frame and the later ones with another.\<close>

definition demo_adapter :: adapters where
  "demo_adapter n src symbol start end interval =
     (if n = 0 then Inr prices_frame else Inr unordered_frame)"

definition fresh_dispatcher :: dispatcher where
  "fresh_dispatcher = \<lparr>cache_store = Map.empty, adapter_calls = 0\<rparr>"

section \<open>Facts about rows, renaming and filtering\<close>

lemma select_Nil2 [simp]: "select bs [] = []"
  by (cases bs) auto




lemma map_of_rename_map:
  "map_of (rename_map cs) c = (if c \<in> set cs then csv_rename_entry c else None)"
  unfolding rename_map_def
  by (induction cs) (auto split: option.splits)

lemma csv_renamed:
  "(if rename_map (columns df) \<noteq> [] then rename_columns (rename_map (columns df)) df else df) =
     df\<lparr>data := map (\<lambda>(c, vs). (csv_canonical c, vs)) (data df)\<rparr>"
proof -
  have a: "map (\<lambda>(c, vs). (case map_of (rename_map (columns df)) c of Some n \<Rightarrow> n | None \<Rightarrow> c, vs)) (data df)
      = map (\<lambda>(c, vs). (csv_canonical c, vs)) (data df)"
    by (rule map_cong) (auto simp: map_of_rename_map columns_def csv_canonical_def rev_image_eqI)
  have b: "rename_map (columns df) = [] \<Longrightarrow> map (\<lambda>(c, vs). (csv_canonical c, vs)) (data df) = data df"
  proof -
    assume e: "rename_map (columns df) = []"
    have "\<And>c vs. (c, vs) \<in> set (data df) \<Longrightarrow> csv_rename_entry c = None"
    proof -
      fix c vs assume "(c, vs) \<in> set (data df)"
      then have "c \<in> set (columns df)" by (auto simp: columns_def rev_image_eqI)
      with map_of_rename_map[of "columns df" c] e show "csv_rename_entry c = None" by simp
    qed
    then have "map (\<lambda>(c, vs). (csv_canonical c, vs)) (data df) = map (\<lambda>x. x) (data df)"
      by (intro map_cong) (auto simp: csv_canonical_def)
    then show ?thesis by simp
  qed
  show ?thesis using a b by (auto simp: rename_columns_def)
qed

lemma ensure_datetime_index_rename:
  "ensure_datetime_index pd (df\<lparr>data := d\<rparr>) =
     (case ensure_datetime_index pd df of Inl m \<Rightarrow> Inl m | Inr df' \<Rightarrow> Inr (df'\<lparr>data := d\<rparr>))"
  by (auto simp: ensure_datetime_index_def split: sum.splits)

lemma ensure_datetime_index_kind:
  "ensure_datetime_index pd df = Inr df' \<Longrightarrow>
     index df' = DatetimeIndex (index_aware (index df')) (index_times (index df'))
     \<and> data df' = data df"
  by (cases "index df")
     (auto simp: ensure_datetime_index_def split: sum.splits if_splits prod.splits)












lemma csv_fetch_read:
  assumes "path_exists os (csv_path os symbol csv_base)"
    and "read_csv pd (csv_path os symbol csv_base) = Inr df0"
  shows "csv_fetch pd os symbol start end interval csv_base =
     (case ensure_datetime_index pd (df0\<lparr>data := map (\<lambda>(c, vs). (csv_canonical c, vs)) (data df0)\<rparr>) of
        Inl e \<Rightarrow> Inl (ForeignError e)
      | Inr df2 \<Rightarrow>
          (case filter_start pd start df2 of
             Inl e \<Rightarrow> Inl (ForeignError e)
           | Inr df3 \<Rightarrow>
               (case filter_end pd end df3 of
                  Inl e \<Rightarrow> Inl (ForeignError e)
                | Inr df4 \<Rightarrow> Inr df4)))"
  using assms unfolding csv_fetch_def Let_def csv_renamed by simp







text \<open>A bound of the other awareness than the index makes the comparison, and so \<open>fetch\<close>, raise.\<close>

lemma csv_fetch_tz_mismatch:
  assumes ex: "path_exists os (csv_path os symbol csv_base)"
    and rd: "read_csv pd (csv_path os symbol csv_base) = Inr df0"
    and ix: "ensure_datetime_index pd df0 = Inr df1"
    and lo: "bound pd start = Inr (Some (tz, t))"
    and ne: "tz \<noteq> index_aware (index df1)"
  shows "csv_fetch pd os symbol start end interval csv_base = Inl (ForeignError tz_mismatch)"
proof -
  let ?d = "map (\<lambda>(c, vs). (csv_canonical c, vs)) (data df0)"
  have e2: "ensure_datetime_index pd (df0\<lparr>data := ?d\<rparr>) = Inr (df1\<lparr>data := ?d\<rparr>)"
    by (simp add: ensure_datetime_index_rename ix)
  obtain tz' ts where i1: "index df1 = DatetimeIndex tz' ts" and tz': "tz' = index_aware (index df1)"
    using ensure_datetime_index_kind[OF ix] by auto
  have "index_ge (index (df1\<lparr>data := ?d\<rparr>)) (tz, t) = Inl tz_mismatch"
    using ne by (simp add: i1)
  moreover from lo obtain v where "start = Some v" "v \<noteq> []"
    "to_datetime_scalar pd v = Inr (tz, t)"
    by (auto simp: bound_def split: option.splits if_splits sum.splits)
  ultimately have "filter_start pd start (df1\<lparr>data := ?d\<rparr>) = Inl tz_mismatch"
    by (simp add: filter_start_def)
  then show ?thesis by (simp add: csv_fetch_read[OF ex rd] e2)
qed

lemma add_missing_index: "index (add_missing col df) = index df"
  by (simp add: add_missing_def)

lemma fold_add_missing_index: "index (fold add_missing cs df) = index df"
  by (induction cs arbitrary: df) (simp_all add: add_missing_index)

lemma columns_add_missing: "set (columns (add_missing col df)) = insert col (set (columns df))"
  by (auto simp: add_missing_def columns_def)

lemma columns_fold_add_missing:
  "set (columns (fold add_missing cs df)) = set (columns df) \<union> set cs"
  by (induction cs arbitrary: df) (auto simp: columns_add_missing)

lemma map_of_add_missing:
  "map_of (data (add_missing col df)) c =
     (if c \<in> set (columns df) then map_of (data df) c
      else if c = col then Some (replicate (index_len (index df)) (Num 0))
      else None)"
proof -
  have "c \<notin> set (columns df) \<Longrightarrow> map_of (data df) c = None"
    by (simp add: columns_def map_of_eq_None_iff)
  moreover have "c \<in> set (columns df) \<Longrightarrow> \<exists>v. map_of (data df) c = Some v"
    using map_of_eq_None_iff[of "data df" c] by (auto simp: columns_def)
  ultimately show ?thesis
    by (auto simp: add_missing_def map_add_def split: option.splits)
qed

lemma map_of_fold_add_missing:
  "map_of (data (fold add_missing cs df)) c =
     (if c \<in> set (columns df) then map_of (data df) c
      else if c \<in> set cs then Some (replicate (index_len (index df)) (Num 0))
      else None)"
proof (induction cs arbitrary: df)
  case Nil
  then show ?case by (simp add: columns_def map_of_eq_None_iff)
next
  case (Cons a cs)
  show ?case
    by (simp add: Cons.IH columns_add_missing map_of_add_missing add_missing_index)
qed

lemma find_date_column:
  "find (\<lambda>col. col \<in> set cols) date_columns = Some dc \<Longrightarrow> dc \<notin> set necessary_columns"
  by (auto simp: date_columns_def necessary_columns_def split: if_splits)

lemma columns_set_index:
  "set (columns (set_index df name dt)) = set (columns df) - {name}"
  by (auto simp: set_index_def columns_def rev_image_eqI)

lemma map_of_filter_other:
  "c \<noteq> name \<Longrightarrow> map_of (filter (\<lambda>(k, v). k \<noteq> name) xs) c = map_of xs c"
  by (induction xs) auto

lemma map_of_set_index:
  "c \<noteq> name \<Longrightarrow> map_of (data (set_index df name dt)) c = map_of (data df) c"
  by (simp add: set_index_def map_of_filter_other)

lemma columns_take_rows: "columns (take_rows keep df) = columns df"
  by (simp add: take_rows_def columns_def case_prod_unfold comp_def)

lemma filter_start_columns: "filter_start pd start df = Inr df' \<Longrightarrow> columns df' = columns df"
  by (auto simp: filter_start_def columns_take_rows split: option.splits if_splits sum.splits)

lemma filter_end_columns: "filter_end pd end df = Inr df' \<Longrightarrow> columns df' = columns df"
  by (auto simp: filter_end_def columns_take_rows split: option.splits if_splits sum.splits)

lemma csv_fetch_columns:
  assumes ex: "path_exists os (csv_path os symbol csv_base)"
    and rd: "read_csv pd (csv_path os symbol csv_base) = Inr df0"
    and res: "csv_fetch pd os symbol start end interval csv_base = Inr df"
  shows "columns df = map csv_canonical (columns df0)"
proof -
  let ?d = "map (\<lambda>(c, vs). (csv_canonical c, vs)) (data df0)"
  from res obtain df2 df3 where
    e2: "ensure_datetime_index pd (df0\<lparr>data := ?d\<rparr>) = Inr df2"
    and s3: "filter_start pd start df2 = Inr df3"
    and s4: "filter_end pd end df3 = Inr df"
    unfolding csv_fetch_read[OF ex rd] by (auto split: sum.splits)
  have "columns df2 = map csv_canonical (columns df0)"
    using ensure_datetime_index_kind[OF e2] by (simp add: columns_def case_prod_unfold comp_def)
  then show ?thesis
    using filter_start_columns[OF s3] filter_end_columns[OF s4] by simp
qed

lemma standardize_dataframe_nonempty:
  assumes "standardize_dataframe pd now (Some df) exchange = Inr out" and "\<not> df_empty df"
  shows "\<exists>df2. out = fold add_missing necessary_columns df2
           \<and> (\<forall>col \<in> set necessary_columns.
                 (col \<in> set (columns df2)
                    \<longleftrightarrow> col \<in> set (columns (rename_columns (get_column_mapping exchange) df)))
                 \<and> map_of (data df2) col
                     = map_of (data (rename_columns (get_column_mapping exchange) df)) col)"
proof -
  let ?df1 = "rename_columns (get_column_mapping exchange) df"
  show ?thesis
  proof (cases "find (\<lambda>col. col \<in> set (columns ?df1)) date_columns")
    case None
    then have "out = fold add_missing necessary_columns
                      (?df1\<lparr>index := default_index now (index_len (index ?df1))\<rparr>)"
      using assms by (simp add: standardize_dataframe_def Let_def)
    then show ?thesis by (intro exI[of _ "?df1\<lparr>index := default_index now (index_len (index ?df1))\<rparr>"])
        (simp add: columns_def)
  next
    case (Some dc)
    then obtain dt where "out = fold add_missing necessary_columns (set_index ?df1 dc dt)"
      using assms by (auto simp: standardize_dataframe_def Let_def split: sum.splits)
    moreover have "\<forall>col \<in> set necessary_columns. col \<noteq> dc"
      using find_date_column[OF Some] by auto
    ultimately show ?thesis
      by (intro exI[of _ "set_index ?df1 dc dt"])
         (auto simp: columns_set_index map_of_set_index)
  qed
qed

section \<open>Facts about runs of the strategy\<close>

lemma length_deque_append:
  "length (items (deque_append d x)) \<le> Suc (length (items d))"
  by (simp add: deque_append_def)

lemma long_window_exec: "long_window (exec mean ev s) = long_window s"
proof (cases ev)
  case OnStart
  then show ?thesis by (simp add: on_start_def)
next
  case (OnBar b)
  then show ?thesis by (simp add: on_bar_def split: sum.splits)
next
  case GenerateSignals
  then show ?thesis
    by (auto simp: generate_signals_def Let_def split: sum.splits if_splits)
next
  case OnStop
  then show ?thesis by simp
qed

lemma long_window_run: "long_window (run mean s evs) = long_window s"
  unfolding run_def by (induction evs arbitrary: s) (simp_all add: long_window_exec)

lemma prices_generate_signals:
  "generate_signals mean s = Inr (d, s') \<Longrightarrow> prices s' = prices s"
  by (auto simp: generate_signals_def Let_def split: sum.splits if_splits)

lemma length_prices_exec:
  "length (items (prices (exec mean ev s)))
     \<le> length (items (prices s)) + observed [ev]"
proof (cases ev)
  case OnStart
  then show ?thesis by (simp add: on_start_def deque_clear_def)
next
  case (OnBar b)
  then show ?thesis
    using length_deque_append[of "prices s"]
    by (auto simp: on_bar_def split: sum.splits intro: le_trans)
next
  case GenerateSignals
  then show ?thesis
    by (auto split: sum.splits dest: prices_generate_signals)
next
  case OnStop
  then show ?thesis by simp
qed

lemma observed_Cons: "observed (ev # evs) = observed [ev] + observed evs"
  by (cases ev) simp_all

lemma length_prices_run:
  "length (items (prices (run mean s evs))) \<le> length (items (prices s)) + observed evs"
  unfolding run_def
proof (induction evs arbitrary: s)
  case Nil
  then show ?case by simp
next
  case (Cons ev evs)
  have "length (items (prices (fold (exec mean) evs (exec mean ev s))))
          \<le> length (items (prices (exec mean ev s))) + observed evs"
    by (rule Cons.IH)
  also have "\<dots> \<le> length (items (prices s)) + observed [ev] + observed evs"
    using length_prices_exec[of mean ev s] by simp
  finally show ?case by (simp add: observed_Cons[of ev evs])
qed

lemma run_append: "run mean s (xs @ ys) = run mean (run mean s xs) ys"
  by (simp add: run_def)

lemma run_Cons: "run mean s (ev # evs) = run mean (exec mean ev s) evs"
  by (simp add: run_def)

section \<open>The sample environment, evaluated\<close>

lemma prices_exists: "path_exists demo_os (csv_path demo_os ''data/prices.csv'' None)"
  by code_simp

lemma prices_read:
  "read_csv demo_pandas (csv_path demo_os ''data/prices.csv'' None) = Inr prices_frame"
  by code_simp






lemma utc_exists: "path_exists demo_os (csv_path demo_os ''data/utc.csv'' None)"
  by code_simp

lemma utc_read: "read_csv demo_pandas (csv_path demo_os ''data/utc.csv'' None) = Inr utc_frame"
  by code_simp

lemma utc_index: "ensure_datetime_index demo_pandas utc_frame = Inr utc_frame"
  by code_simp

lemma utc_naive_start:
  "csv_fetch demo_pandas demo_os ''data/utc.csv'' (Some ''2024-01-10'') None ''1d'' None
     = Inl (ForeignError ''Cannot compare tz-naive and tz-aware datetime-like objects'')"
  by code_simp

lemma utc_aware_start:
  "csv_fetch demo_pandas demo_os ''data/utc.csv'' (Some ''2024-01-10T00:00:00+00:00'') None ''1d'' None
     = Inr \<lparr>index = DatetimeIndex True [10, 15], data = [(''Close'', [Num 6, Num 7])]\<rparr>"
  by code_simp


lemma aapl_missing: "\<not> path_exists demo_os (csv_path demo_os ''AAPL'' None)"
  by code_simp

lemma throttled_message:
  "sublist ''too many requests'' (lower ''429 Too Many Requests'')"
  by code_simp

lemma reset_message:
  "\<not> sublist ''rate'' (lower ''connection reset by peer'')"
  "\<not> sublist ''limit'' (lower ''connection reset by peer'')"
  "\<not> sublist ''too many requests'' (lower ''connection reset by peer'')"
  by code_simp+








lemma prices_window:
  "csv_fetch demo_pandas demo_os ''data/prices.csv'' (Some ''2024-01-10'') (Some ''2024-01-20'') ''1d'' None
     = Inr \<lparr>index = DatetimeIndex False [10, 15, 20],
            data = [(''Close'', [Num 12, Num 13, Num 14]),
                    (''Volume'', [Num 200, Num 300, Num 400])]\<rparr>"
  by code_simp

lemma malformed_try:
  "akshare_try demo_pandas (AkshareInstalled (\<lambda>symbol start end. Inr (Some malformed_frame)))
       ''sh600000'' None None ''1d''
     = Inl (ForeignError ''Unknown datetime string format, unable to parse: n/a'')"
  by code_simp

lemma refused_try:
  "yfinance_try demo_pandas (\<lambda>symbol start end interval adjusted. Inl ''connection reset by peer'')
       ''AAPL'' None None ''1d'' True
     = Inl (ForeignError ''connection reset by peer'')"
  by code_simp

lemma malformed_message:
  "\<not> rate_limit_message (message (ForeignError ''Unknown datetime string format, unable to parse: n/a''))"
  by code_simp

lemma refused_message:
  "\<not> rate_limit_message (message (ForeignError ''connection reset by peer''))"
  by code_simp

lemma broken_exists: "path_exists demo_os (csv_path demo_os ''data/broken.csv'' None)"
  by code_simp

lemma broken_read:
  "read_csv demo_pandas (csv_path demo_os ''data/broken.csv'' None) = Inl ''Error tokenizing data''"
  by code_simp

lemma hist_standardized:
  "standardize_dataframe demo_pandas 0 (Some hist_frame) ''SH'' = Inr hist_standard"
  by code_simp

lemma hist_not_empty: "\<not> df_empty hist_frame"
  by code_simp

lemma hist_renamed:
  "columns (rename_columns (get_column_mapping ''SH'') hist_frame) = [''Date'', ''Close'']"
  "map_of (data (rename_columns (get_column_mapping ''SH'') hist_frame)) ''Close'' = Some [Num 7, Num 8]"
  by code_simp+

lemma init_demo:
  "init [''short_window'' \<mapsto> 2, ''long_window'' \<mapsto> 3] = Inr demo_strategy"
  by (simp add: init_def demo_strategy_def)

lemma warm_up_observed: "int (observed warm_up_events) < long_window demo_strategy"
  by (simp add: warm_up_events_def demo_strategy_def)

lemma warm_up_run:
  "run mean demo_strategy (OnStart # warm_up_events)
     = demo_strategy\<lparr>prices := \<lparr>maxlen = 3, items = [10, 11]\<rparr>\<rparr>"
  by (simp add: run_def warm_up_events_def demo_strategy_def on_start_def on_bar_def
        deque_clear_def deque_append_def generate_signals_def no_close_def)

lemma after_warm_up:
  "generate_signals exact_mean (run exact_mean demo_strategy
      (OnStart # warm_up_events @ [OnBar (DictBar [''close'' \<mapsto> Number 9]), GenerateSignals,
                                   OnBar (DictBar [''close'' \<mapsto> Number 30])]))
     = Inr (\<lparr>signal = Some ''buy'', size_out = 1\<rparr>,
            demo_strategy\<lparr>prices := \<lparr>maxlen = 3, items = [11, 9, 30]\<rparr>, position := 1,
              last_short_sma := Some (Some (39 / 2)), last_long_sma := Some (Some (50 / 3))\<rparr>)"
  by (simp add: run_def warm_up_events_def demo_strategy_def on_start_def on_bar_def
        deque_clear_def deque_append_def generate_signals_def no_close_def
        rolling_mean_last_def crossover_def exact_mean_def Let_def)

section \<open>The claims\<close>

text \<open>
  C1. When a call of \<open>get_history\<close> with \<open>cache = True\<close> has returned a series, a
  second call for the same symbol, source and interval with \<open>cache = True\<close> and
  \<open>refresh = False\<close> returns that series and leaves the dispatcher as it was, the count
  of adapter invocations included, whatever the adapter would answer now.
\<close>

theorem get_history_cached:
  assumes "get_history adapter normalizer st symbol start end src interval True refresh
             = (Inr series, st1)"
  shows "get_history adapter' normalizer' st1 symbol start' end' src interval True False
           = (Inr series, st1)"
  using assms
  by (auto simp: get_history_def fetch_and_store_def cache_get_def cache_put_def Let_def
           split: if_splits option.splits sum.splits)

theorem get_history_cached_witness:
  "get_history demo_adapter id fresh_dispatcher ''sh600000'' None None ExchangeApi ''1d'' True False
     = (Inr prices_frame,
        \<lparr>cache_store = [(''sh600000'', ExchangeApi, ''1d'') \<mapsto> prices_frame], adapter_calls = 1\<rparr>)
   \<and> get_history demo_adapter id
        \<lparr>cache_store = [(''sh600000'', ExchangeApi, ''1d'') \<mapsto> prices_frame], adapter_calls = 1\<rparr>
        ''sh600000'' None None ExchangeApi ''1d'' True False
     = (Inr prices_frame,
        \<lparr>cache_store = [(''sh600000'', ExchangeApi, ''1d'') \<mapsto> prices_frame], adapter_calls = 1\<rparr>)"
proof -
  have first:
    "get_history demo_adapter id fresh_dispatcher ''sh600000'' None None ExchangeApi ''1d'' True False
       = (Inr prices_frame,
          \<lparr>cache_store = [(''sh600000'', ExchangeApi, ''1d'') \<mapsto> prices_frame], adapter_calls = 1\<rparr>)"
    by (simp add: get_history_def fetch_and_store_def cache_get_def cache_put_def
          demo_adapter_def fresh_dispatcher_def)
  show ?thesis
    using first get_history_cached[OF first, of demo_adapter id None None] by simp
qed

text \<open>
  C2. When the provider call of the akshare adapter (package installed, daily interval)
  or of the yfinance adapter raises an exception with message \<open>m\<close>, \<open>fetch\<close> raises
  \<open>RateLimitError m\<close> if the lower-cased message contains \<open>rate\<close>, \<open>limit\<close> or
  \<open>too many requests\<close>, and \<open>AdapterError m\<close> otherwise.
\<close>

theorem provider_exception_classified:
  "(stock_zh_a_daily symbol start end = Inl m \<longrightarrow> (interval = ''1d'' \<or> interval = ''daily'') \<longrightarrow>
      akshare_fetch pd (AkshareInstalled stock_zh_a_daily) symbol start end interval =
        Inl (if sublist ''rate'' (lower m) \<or> sublist ''limit'' (lower m)
                \<or> sublist ''too many requests'' (lower m)
             then RateLimitError m else AdapterError m))
   \<and> (download symbol start end interval adjusted = Inl m \<longrightarrow>
      yfinance_fetch pd download symbol start end interval adjusted =
        Inl (if sublist ''rate'' (lower m) \<or> sublist ''limit'' (lower m)
                \<or> sublist ''too many requests'' (lower m)
             then RateLimitError m else AdapterError m))"
  by (simp add: akshare_fetch_def akshare_try_def yfinance_fetch_def yfinance_try_def
        classify_def rate_limit_message_def Let_def)

theorem provider_exception_classified_witness:
  "akshare_fetch demo_pandas (AkshareInstalled (\<lambda>symbol start end. Inl ''429 Too Many Requests''))
       ''sh600000'' None None ''daily''
     = Inl (RateLimitError ''429 Too Many Requests'')
   \<and> yfinance_fetch demo_pandas (\<lambda>symbol start end interval adjusted. Inl ''429 Too Many Requests'')
       ''AAPL'' None None ''1h'' True
     = Inl (RateLimitError ''429 Too Many Requests'')
   \<and> akshare_fetch demo_pandas (AkshareInstalled (\<lambda>symbol start end. Inl ''connection reset by peer''))
       ''sh600000'' None None ''1d''
     = Inl (AdapterError ''connection reset by peer'')
   \<and> yfinance_fetch demo_pandas (\<lambda>symbol start end interval adjusted. Inl ''connection reset by peer'')
       ''AAPL'' None None ''1d'' True
     = Inl (AdapterError ''connection reset by peer'')"
  using
    provider_exception_classified[where stock_zh_a_daily = "\<lambda>symbol start end. Inl ''429 Too Many Requests''"
      and download = "\<lambda>symbol start end interval adjusted. Inl ''429 Too Many Requests''"
      and m = "''429 Too Many Requests''" and interval = "''daily''" and pd = demo_pandas
      and symbol = "''sh600000''"]
    provider_exception_classified[where stock_zh_a_daily = "\<lambda>symbol start end. Inl ''429 Too Many Requests''"
      and download = "\<lambda>symbol start end interval adjusted. Inl ''429 Too Many Requests''"
      and m = "''429 Too Many Requests''" and interval = "''1h''" and pd = demo_pandas
      and symbol = "''AAPL''" and adjusted = True]
    provider_exception_classified[where stock_zh_a_daily = "\<lambda>symbol start end. Inl ''connection reset by peer''"
      and download = "\<lambda>symbol start end interval adjusted. Inl ''connection reset by peer''"
      and m = "''connection reset by peer''" and interval = "''1d''" and pd = demo_pandas
      and symbol = "''sh600000''"]
    provider_exception_classified[where stock_zh_a_daily = "\<lambda>symbol start end. Inl ''connection reset by peer''"
      and download = "\<lambda>symbol start end interval adjusted. Inl ''connection reset by peer''"
      and m = "''connection reset by peer''" and interval = "''1d''" and pd = demo_pandas
      and symbol = "''AAPL''" and adjusted = True]
    throttled_message reset_message
  by simp




text \<open>
  C4. When the resolved path does not exist, \<open>fetch\<close> of the CSV adapter returns the
  empty frame \<open>pd.DataFrame()\<close>; it raises nothing.
\<close>

theorem csv_fetch_missing_file:
  "\<not> path_exists os (csv_path os symbol csv_base) \<Longrightarrow>
     csv_fetch pd os symbol start end interval csv_base = Inr empty_frame"
  by (simp add: csv_fetch_def Let_def)

theorem csv_fetch_missing_file_witness:
  "\<not> path_exists demo_os (csv_path demo_os ''AAPL'' None)
   \<and> csv_fetch demo_pandas demo_os ''AAPL'' (Some ''2024-01-10'') None ''1d'' None = Inr empty_frame"
  using aapl_missing
    csv_fetch_missing_file[OF aapl_missing, of demo_pandas "Some ''2024-01-10''" None "''1d''"]
  by simp

text \<open>
  C5. For an interval other than \<open>1d\<close> and \<open>daily\<close>, \<open>fetch\<close> of the akshare adapter
  raises \<open>AdapterError\<close> and returns no frame: with the package installed its message is
  \<open>Interval not supported by akshare adapter: <interval>\<close> (with the package missing,
  the import is what fails first, also as an \<open>AdapterError\<close>).
\<close>

theorem akshare_fetch_unsupported_interval:
  assumes "interval \<noteq> ''1d''" and "interval \<noteq> ''daily''"
  shows "akshare_fetch pd ak symbol start end interval =
           Inl (AdapterError (case ak of
                  AkshareMissing ie \<Rightarrow> ''akshare is not installed''
                | AkshareInstalled f \<Rightarrow> ''Interval not supported by akshare adapter: '' @ interval))"
  using assms by (simp add: akshare_fetch_def akshare_try_def split: akshare_package.splits)

theorem akshare_fetch_unsupported_interval_witness:
  "''1h'' \<noteq> ''1d'' \<and> ''1h'' \<noteq> ''daily''
   \<and> akshare_fetch demo_pandas (AkshareInstalled demo_stock_zh_a_daily) ''sh600000'' None None ''1h''
       = Inl (AdapterError ''Interval not supported by akshare adapter: 1h'')"
proof -
  have a: "''1h'' \<noteq> ''1d''" and b: "''1h'' \<noteq> ''daily''" by simp_all
  show ?thesis
    using a b akshare_fetch_unsupported_interval[OF a b, of demo_pandas
        "AkshareInstalled demo_stock_zh_a_daily" "''sh600000''" None None]
    by simp
qed

text \<open>
  C6. With the yfinance package missing, importing the yfinance adapter raises the
  import error itself, unclassified; no \<open>fetch\<close> becomes available. (The akshare
  adapter imports its package inside \<open>fetch\<close> and raises \<open>AdapterError\<close>.)
\<close>

theorem yfinance_adapter_import_missing_package:
  "import_yfinance_adapter pd (YfinanceMissing m) = Inl (ForeignError m)
   \<and> akshare_fetch pd (AkshareMissing ie) symbol start end interval
       = Inl (AdapterError ''akshare is not installed'')"
  by (simp add: import_yfinance_adapter_def akshare_fetch_def akshare_try_def)



text \<open>
  C8 (as amended). \<open>_standardize_dataframe\<close>, given a frame that is not empty, returns
  (when the date column converts) a frame that has each of \<open>Open\<close>, \<open>High\<close>, \<open>Low\<close>,
  \<open>Close\<close> and \<open>Volume\<close>: a column present after the renaming keeps its cells, a missing
  one is added with \<open>0.0\<close> in every row. Adjusted close is not among the columns it
  adds. For \<open>None\<close> or an empty frame it returns the empty frame, which has no columns.
  The CSV adapter renames the synonyms of the canonical labels and adds no column.
\<close>

theorem standardize_dataframe_columns:
  "(standardize_dataframe pd now (Some df) exchange = Inr out \<longrightarrow> \<not> df_empty df \<longrightarrow>
      set necessary_columns \<subseteq> set (columns out)
      \<and> (\<forall>col \<in> set necessary_columns.
            map_of (data out) col =
              (if col \<in> set (columns (rename_columns (get_column_mapping exchange) df))
               then map_of (data (rename_columns (get_column_mapping exchange) df)) col
               else Some (replicate (index_len (index out)) (Num 0)))))
   \<and> standardize_dataframe pd now None exchange = Inr empty_frame
   \<and> (df_empty df \<longrightarrow> standardize_dataframe pd now (Some df) exchange = Inr empty_frame)
   \<and> columns empty_frame = []
   \<and> (path_exists os (csv_path os symbol csv_base) \<longrightarrow>
      read_csv pd (csv_path os symbol csv_base) = Inr df0 \<longrightarrow>
      csv_fetch pd os symbol start end interval csv_base = Inr res \<longrightarrow>
      columns res = map csv_canonical (columns df0))"
proof (intro conjI impI)
  assume a: "standardize_dataframe pd now (Some df) exchange = Inr out" and b: "\<not> df_empty df"
  from standardize_dataframe_nonempty[OF a b] obtain df2 where
    o: "out = fold add_missing necessary_columns df2"
    and k: "\<forall>col \<in> set necessary_columns.
                 (col \<in> set (columns df2)
                    \<longleftrightarrow> col \<in> set (columns (rename_columns (get_column_mapping exchange) df)))
                 \<and> map_of (data df2) col
                     = map_of (data (rename_columns (get_column_mapping exchange) df)) col"
    by blast
  show "set necessary_columns \<subseteq> set (columns out)"
    by (simp add: o columns_fold_add_missing)
  show "\<forall>col \<in> set necessary_columns.
            map_of (data out) col =
              (if col \<in> set (columns (rename_columns (get_column_mapping exchange) df))
               then map_of (data (rename_columns (get_column_mapping exchange) df)) col
               else Some (replicate (index_len (index out)) (Num 0)))"
    using k by (simp add: o map_of_fold_add_missing fold_add_missing_index)
next
  show "standardize_dataframe pd now None exchange = Inr empty_frame"
    by (simp add: standardize_dataframe_def)
next
  assume "df_empty df"
  then show "standardize_dataframe pd now (Some df) exchange = Inr empty_frame"
    by (simp add: standardize_dataframe_def)
next
  show "columns empty_frame = []" by (simp add: columns_def empty_frame_def)
next
  assume "path_exists os (csv_path os symbol csv_base)"
    "read_csv pd (csv_path os symbol csv_base) = Inr df0"
    "csv_fetch pd os symbol start end interval csv_base = Inr res"
  then show "columns res = map csv_canonical (columns df0)"
    by (rule csv_fetch_columns)
qed

theorem standardize_dataframe_columns_witness:
  "standardize_dataframe demo_pandas 0 (Some hist_frame) ''SH'' = Inr hist_standard
   \<and> \<not> df_empty hist_frame
   \<and> set necessary_columns \<subseteq> set (columns hist_standard)
   \<and> map_of (data hist_standard) ''Close'' = Some [Num 7, Num 8]
   \<and> map_of (data hist_standard) ''Volume'' = Some [Num 0, Num 0]
   \<and> df_empty empty_frame
   \<and> standardize_dataframe demo_pandas 0 (Some empty_frame) ''SH'' = Inr empty_frame
   \<and> path_exists demo_os (csv_path demo_os ''data/prices.csv'' None)
   \<and> read_csv demo_pandas (csv_path demo_os ''data/prices.csv'' None) = Inr prices_frame
   \<and> csv_fetch demo_pandas demo_os ''data/prices.csv'' (Some ''2024-01-10'') (Some ''2024-01-20'') ''1d'' None
       = Inr \<lparr>index = DatetimeIndex False [10, 15, 20],
              data = [(''Close'', [Num 12, Num 13, Num 14]),
                      (''Volume'', [Num 200, Num 300, Num 400])]\<rparr>
   \<and> columns \<lparr>index = DatetimeIndex False [10, 15, 20],
              data = [(''Close'', [Num 12, Num 13, Num 14]),
                      (''Volume'', [Num 200, Num 300, Num 400])]\<rparr>
       = map csv_canonical (columns prices_frame)"
proof -
  note t = standardize_dataframe_columns[of demo_pandas 0 hist_frame "''SH''" hist_standard]
  have a: "set necessary_columns \<subseteq> set (columns hist_standard)"
    and b: "\<forall>col \<in> set necessary_columns.
            map_of (data hist_standard) col =
              (if col \<in> set (columns (rename_columns (get_column_mapping ''SH'') hist_frame))
               then map_of (data (rename_columns (get_column_mapping ''SH'') hist_frame)) col
               else Some (replicate (index_len (index hist_standard)) (Num 0)))"
    using t[THEN conjunct1, rule_format, OF hist_standardized hist_not_empty] by blast+
  have c: "map_of (data hist_standard) ''Close'' = Some [Num 7, Num 8]"
    using b[rule_format, of "''Close''"] by (simp add: necessary_columns_def hist_renamed)
  have d: "map_of (data hist_standard) ''Volume'' = Some [Num 0, Num 0]"
    using b[rule_format, of "''Volume''"]
    by (simp add: necessary_columns_def hist_renamed hist_standard_def)
  have e: "df_empty empty_frame" by (simp add: df_empty_def empty_frame_def)
  have f: "standardize_dataframe demo_pandas 0 (Some empty_frame) ''SH'' = Inr empty_frame"
    by (rule standardize_dataframe_columns[THEN conjunct2, THEN conjunct2, THEN conjunct1,
          rule_format, OF e])
  have g: "columns \<lparr>index = DatetimeIndex False [10, 15, 20],
              data = [(''Close'', [Num 12, Num 13, Num 14]),
                      (''Volume'', [Num 200, Num 300, Num 400])]\<rparr>
       = map csv_canonical (columns prices_frame)"
    by (rule standardize_dataframe_columns[THEN conjunct2, THEN conjunct2, THEN conjunct2,
          THEN conjunct2, rule_format, OF prices_exists prices_read prices_window])
  show ?thesis
    using a c d e f g hist_standardized hist_not_empty prices_exists prices_read prices_window
    by simp
qed

text \<open>
  C8 as stated fails: the standardised frame has no adjusted-close column, an absent
  frame is standardised to a frame without columns, and the CSV adapter returns the
  columns of the file only.
\<close>

theorem standardize_dataframe_columns_counterexample:
  "standardize_dataframe demo_pandas 0 (Some hist_frame) ''SH''
     = Inr \<lparr>index = DatetimeIndex False [3, 4],
            data = [(''Close'', [Num 7, Num 8]), (''Open'', [Num 0, Num 0]),
                    (''High'', [Num 0, Num 0]), (''Low'', [Num 0, Num 0]),
                    (''Volume'', [Num 0, Num 0])]\<rparr>
   \<and> ''Adj Close'' \<notin> set [''Close'', ''Open'', ''High'', ''Low'', ''Volume'']
   \<and> standardize_dataframe demo_pandas 0 None ''SH'' = Inr \<lparr>index = RangeIndex 0, data = []\<rparr>
   \<and> csv_fetch demo_pandas demo_os ''data/prices.csv'' None None ''1d'' None
       = Inr \<lparr>index = DatetimeIndex False [1, 10, 15, 20, 31],
              data = [(''Close'', [Num 11, Num 12, Num 13, Num 14, Num 15]),
                      (''Volume'', [Num 100, Num 200, Num 300, Num 400, Num 500])]\<rparr>
   \<and> ''Open'' \<notin> set [''Close'', ''Volume'']"
  by code_simp

text \<open>
  C9 (as amended). In the akshare and the yfinance adapter every exception raised inside
  \<open>fetch\<close> crosses the boundary classified: as \<open>AdapterError\<close> when its message has
  none of the rate-limit keywords, and never as an exception of another class. The CSV
  adapter classifies nothing: when reading the file fails it returns the empty frame.
\<close>

theorem adapter_failure_classification:
  "(akshare_try pd ak symbol start end interval = Inl e \<longrightarrow>
      \<not> rate_limit_message (message e) \<longrightarrow>
      akshare_fetch pd ak symbol start end interval = Inl (AdapterError (message e)))
   \<and> (yfinance_try pd download symbol start end interval adjusted = Inl e \<longrightarrow>
      \<not> rate_limit_message (message e) \<longrightarrow>
      yfinance_fetch pd download symbol start end interval adjusted = Inl (AdapterError (message e)))
   \<and> akshare_fetch pd ak symbol start end interval \<noteq> Inl (ForeignError m)
   \<and> yfinance_fetch pd download symbol start end interval adjusted \<noteq> Inl (ForeignError m)
   \<and> (path_exists os (csv_path os symbol csv_base) \<longrightarrow>
      read_csv pd (csv_path os symbol csv_base) = Inl m \<longrightarrow>
      csv_fetch pd os symbol start end interval csv_base = Inr empty_frame)"
proof (intro conjI impI)
  assume "akshare_try pd ak symbol start end interval = Inl e" "\<not> rate_limit_message (message e)"
  then show "akshare_fetch pd ak symbol start end interval = Inl (AdapterError (message e))"
    by (cases e) (simp_all add: akshare_fetch_def classify_def)
next
  assume "yfinance_try pd download symbol start end interval adjusted = Inl e"
    "\<not> rate_limit_message (message e)"
  then show "yfinance_fetch pd download symbol start end interval adjusted = Inl (AdapterError (message e))"
    by (simp add: yfinance_fetch_def classify_def)
next
  show "akshare_fetch pd ak symbol start end interval \<noteq> Inl (ForeignError m)"
  proof (cases "akshare_try pd ak symbol start end interval")
    case (Inl e)
    then show ?thesis by (cases e) (simp_all add: akshare_fetch_def classify_def)
  next
    case (Inr df)
    then show ?thesis by (simp add: akshare_fetch_def)
  qed
next
  show "yfinance_fetch pd download symbol start end interval adjusted \<noteq> Inl (ForeignError m)"
    by (simp add: yfinance_fetch_def classify_def split: sum.splits)
next
  assume "path_exists os (csv_path os symbol csv_base)"
    "read_csv pd (csv_path os symbol csv_base) = Inl m"
  then show "csv_fetch pd os symbol start end interval csv_base = Inr empty_frame"
    by (simp add: csv_fetch_def Let_def)
qed

theorem adapter_failure_classification_witness:
  "akshare_fetch demo_pandas (AkshareInstalled (\<lambda>symbol start end. Inr (Some malformed_frame)))
       ''sh600000'' None None ''1d''
     = Inl (AdapterError ''Unknown datetime string format, unable to parse: n/a'')
   \<and> yfinance_fetch demo_pandas (\<lambda>symbol start end interval adjusted. Inl ''connection reset by peer'')
       ''AAPL'' None None ''1d'' True
     = Inl (AdapterError ''connection reset by peer'')
   \<and> path_exists demo_os (csv_path demo_os ''data/broken.csv'' None)
   \<and> read_csv demo_pandas (csv_path demo_os ''data/broken.csv'' None) = Inl ''Error tokenizing data''
   \<and> csv_fetch demo_pandas demo_os ''data/broken.csv'' None None ''1d'' None = Inr empty_frame"
proof -
  have a: "akshare_fetch demo_pandas (AkshareInstalled (\<lambda>symbol start end. Inr (Some malformed_frame)))
       ''sh600000'' None None ''1d''
     = Inl (AdapterError ''Unknown datetime string format, unable to parse: n/a'')"
    using adapter_failure_classification[THEN conjunct1, rule_format, OF malformed_try malformed_message]
    by simp
  have b: "yfinance_fetch demo_pandas (\<lambda>symbol start end interval adjusted. Inl ''connection reset by peer'')
       ''AAPL'' None None ''1d'' True
     = Inl (AdapterError ''connection reset by peer'')"
    using adapter_failure_classification[THEN conjunct2, THEN conjunct1, rule_format,
        OF refused_try refused_message]
    by simp
  have c: "csv_fetch demo_pandas demo_os ''data/broken.csv'' None None ''1d'' None = Inr empty_frame"
    by (rule adapter_failure_classification[THEN conjunct2, THEN conjunct2, THEN conjunct2,
          THEN conjunct2, rule_format, OF broken_exists broken_read])
  show ?thesis using a b c broken_exists broken_read by simp
qed

text \<open>
  C9 as stated fails: the CSV adapter answers a file it cannot read with the empty frame
  instead of an \<open>AdapterError\<close>, and an unreadable \<open>start\<close> leaves it as the
  exception pandas raised.
\<close>

theorem adapter_failure_classification_counterexample:
  "read_csv demo_pandas (csv_path demo_os ''data/broken.csv'' None) = Inl ''Error tokenizing data''
   \<and> csv_fetch demo_pandas demo_os ''data/broken.csv'' None None ''1d'' None
       = Inr \<lparr>index = RangeIndex 0, data = []\<rparr>
   \<and> csv_fetch demo_pandas demo_os ''data/prices.csv'' (Some ''yesterday'') None ''1d'' None
       = Inl (ForeignError ''Unknown datetime string format, unable to parse: yesterday'')"
  by code_simp

text \<open>
  C10. After any \<open>on_start\<close>, as long as the calls made since have taken in fewer
  than \<open>long_window\<close> close prices through \<open>on_bar\<close>, \<open>generate_signals\<close> returns
  \<open>{"signal": None, "size": 0}\<close> and changes nothing; so no buy or sell signal comes
  out of the warm-up.
\<close>

theorem generate_signals_warm_up:
  assumes "int (observed evs) < long_window s"
  shows "generate_signals mean (run mean s (pre @ OnStart # evs))
           = Inr (\<lparr>signal = None, size_out = 0\<rparr>, run mean s (pre @ OnStart # evs))"
proof -
  define s0 where "s0 = on_start (run mean s pre)"
  have r: "run mean s (pre @ OnStart # evs) = run mean s0 evs"
    by (simp add: run_append run_Cons s0_def)
  have "length (items (prices s0)) = 0"
    by (simp add: s0_def on_start_def deque_clear_def)
  with length_prices_run[of mean s0 evs]
  have "length (items (prices (run mean s0 evs))) \<le> observed evs" by simp
  moreover have "long_window (run mean s0 evs) = long_window s"
    by (simp add: long_window_run s0_def on_start_def)
  ultimately have "int (length (items (prices (run mean s0 evs)))) < long_window (run mean s0 evs)"
    using assms by simp
  then show ?thesis unfolding r by (simp add: generate_signals_def)
qed

theorem generate_signals_warm_up_witness:
  "int (observed warm_up_events) < long_window demo_strategy
   \<and> generate_signals exact_mean (run exact_mean demo_strategy ([] @ OnStart # warm_up_events))
       = Inr (\<lparr>signal = None, size_out = 0\<rparr>,
              demo_strategy\<lparr>prices := \<lparr>maxlen = 3, items = [10, 11]\<rparr>\<rparr>)"
  using warm_up_observed
    generate_signals_warm_up[OF warm_up_observed, of exact_mean "[]"]
    warm_up_run[of exact_mean]
  by simp

end
